theory Spec2Isabelle
  imports Main
begin

section \<open>Parsed JSON values\<close>

text \<open>
  The handlers of \<^verbatim>\<open>handlers.py\<close> work on what \<^verbatim>\<open>json.loads\<close> returns: \<^verbatim>\<open>None\<close>,
  \<^verbatim>\<open>bool\<close>, \<^verbatim>\<open>int\<close> (unbounded), \<^verbatim>\<open>float\<close>, \<^verbatim>\<open>str\<close>, \<^verbatim>\<open>list\<close> and \<^verbatim>\<open>dict\<close>.

  The code never computes with a float: it only compares one with the integer 0. A float is
  therefore kept as its mathematical value \<open>m * 2 ^ e\<close> (\<open>Finite m e\<close>, so its sign is the
  sign of \<open>m\<close>; \<open>-1.5\<close> is \<open>Finite (-3) (-1)\<close>) or as one of the three special values that
  \<^verbatim>\<open>json.loads\<close> accepts (\<^verbatim>\<open>Infinity\<close>, \<^verbatim>\<open>-Infinity\<close>, \<^verbatim>\<open>NaN\<close>).

  A \<^verbatim>\<open>dict\<close> is an association list in insertion order; \<open>map_of\<close> is the lookup.
\<close>

datatype pyfloat = Finite int int | PosInf | NegInf | NaN

datatype json =
    JNull
  | JBool bool
  | JInt int
  | JFloat pyfloat
  | JStr string
  | JList "json list"
  | JDict "(string \<times> json) list"

type_synonym pydict = "(string \<times> json) list"

subsection \<open>The type tests and comparisons the code uses\<close>

text \<open>\<^verbatim>\<open>isinstance(v, dict)\<close>\<close>

fun isinstance_dict :: "json \<Rightarrow> bool" where
  "isinstance_dict (JDict d) = True"
| "isinstance_dict v = False"

text \<open>\<^verbatim>\<open>isinstance(v, str)\<close>\<close>

fun isinstance_str :: "json \<Rightarrow> bool" where
  "isinstance_str (JStr s) = True"
| "isinstance_str v = False"

text \<open>\<^verbatim>\<open>isinstance(v, int)\<close>: in Python \<^verbatim>\<open>bool\<close> is a subclass of \<^verbatim>\<open>int\<close>.\<close>

fun isinstance_int :: "json \<Rightarrow> bool" where
  "isinstance_int (JInt i) = True"
| "isinstance_int (JBool b) = True"
| "isinstance_int v = False"

text \<open>\<^verbatim>\<open>isinstance(v, (int, float))\<close>\<close>

fun isinstance_int_float :: "json \<Rightarrow> bool" where
  "isinstance_int_float (JInt i) = True"
| "isinstance_int_float (JBool b) = True"
| "isinstance_int_float (JFloat f) = True"
| "isinstance_int_float v = False"

text \<open>
  \<^verbatim>\<open>v <= 0\<close> and \<^verbatim>\<open>v > 0\<close> for a value that passed \<^verbatim>\<open>isinstance(v, (int, float))\<close>:
  \<^verbatim>\<open>True\<close> compares as 1 and \<^verbatim>\<open>False\<close> as 0; every comparison with \<^verbatim>\<open>NaN\<close> is false.
  The code evaluates the comparison only behind the type test (the right operand of
  \<^verbatim>\<open>or\<close>), so the last equation of each function is never reached.
\<close>

fun le_zero :: "json \<Rightarrow> bool" where
  "le_zero (JInt i) = (i \<le> 0)"
| "le_zero (JBool b) = ((if b then 1 else 0 :: int) \<le> 0)"
| "le_zero (JFloat (Finite m e)) = (m \<le> 0)"
| "le_zero (JFloat PosInf) = False"
| "le_zero (JFloat NegInf) = True"
| "le_zero (JFloat NaN) = False"
| "le_zero v = False"

fun gt_zero :: "json \<Rightarrow> bool" where
  "gt_zero (JInt i) = (i > 0)"
| "gt_zero (JBool b) = ((if b then 1 else 0 :: int) > 0)"
| "gt_zero (JFloat (Finite m e)) = (m > 0)"
| "gt_zero (JFloat PosInf) = True"
| "gt_zero (JFloat NegInf) = False"
| "gt_zero (JFloat NaN) = False"
| "gt_zero v = False"

text \<open>\<^verbatim>\<open>len(v) == 0\<close> for a value that passed \<^verbatim>\<open>isinstance(v, str)\<close>.\<close>

fun len_is_zero :: "json \<Rightarrow> bool" where
  "len_is_zero (JStr s) = (length s = 0)"
| "len_is_zero v = False"

section \<open>The record validator: \<^verbatim>\<open>_validate_wifi_data\<close>\<close>

text \<open>
  The second component of the result is a message for the log. The source's messages are
  Russian sentences; each is kept here as a tag (\<open>MissingField f\<close> for the message that
  names the missing field \<open>f\<close>, \<open>NoReason\<close> for the empty string).
\<close>

datatype reason =
    NoReason
  | MissingField string
  | BadBssid
  | BadSsid
  | BadFrequency
  | BadRssi
  | BadTimestamp

text \<open>
  The type and range checks, on the values \<^verbatim>\<open>data['bssid']\<close>, \<^verbatim>\<open>data['ssid']\<close>,
  \<^verbatim>\<open>data['frequency']\<close>, \<^verbatim>\<open>data['rssi']\<close> and \<^verbatim>\<open>data['timestamp']\<close>, in the order
  of the source.
\<close>

fun check_types :: "json \<Rightarrow> json \<Rightarrow> json \<Rightarrow> json \<Rightarrow> json \<Rightarrow> bool \<times> reason" where
  "check_types bssid ssid frequency rssi timestamp =
     (if \<not> isinstance_str bssid \<or> len_is_zero bssid then (False, BadBssid)
      else if \<not> isinstance_str ssid then (False, BadSsid)
      else if \<not> isinstance_int_float frequency \<or> le_zero frequency then (False, BadFrequency)
      else if \<not> isinstance_int rssi \<or> gt_zero rssi then (False, BadRssi)
      else if \<not> isinstance_int_float timestamp \<or> le_zero timestamp then (False, BadTimestamp)
      else (True, NoReason))"

text \<open>
  The loop \<^verbatim>\<open>for field in required_fields: if field not in data: return False, ...\<close>
  over \<^verbatim>\<open>['bssid', 'frequency', 'rssi', 'ssid', 'timestamp']\<close>, unrolled in that order;
  behind it every \<^verbatim>\<open>data[field]\<close> of the checks is defined.
\<close>

definition validate_wifi_data :: "pydict \<Rightarrow> bool \<times> reason" where
  "validate_wifi_data data =
     (case map_of data ''bssid'' of
        None \<Rightarrow> (False, MissingField ''bssid'')
      | Some bssid \<Rightarrow>
     (case map_of data ''frequency'' of
        None \<Rightarrow> (False, MissingField ''frequency'')
      | Some frequency \<Rightarrow>
     (case map_of data ''rssi'' of
        None \<Rightarrow> (False, MissingField ''rssi'')
      | Some rssi \<Rightarrow>
     (case map_of data ''ssid'' of
        None \<Rightarrow> (False, MissingField ''ssid'')
      | Some ssid \<Rightarrow>
     (case map_of data ''timestamp'' of
        None \<Rightarrow> (False, MissingField ''timestamp'')
      | Some timestamp \<Rightarrow> check_types bssid ssid frequency rssi timestamp)))))"

section \<open>The record normalizer: \<^verbatim>\<open>_prepare_wifi_data\<close>\<close>

definition numeric_fields :: "string list" where
  "numeric_fields = [''frequency'', ''rssi'', ''timestamp'']"

definition string_fields :: "string list" where
  "string_fields = [''ssid'', ''bssid'', ''channel_bandwidth'', ''capabilities'']"

definition all_fields :: "string list" where
  "all_fields =
     [''bssid'', ''frequency'', ''rssi'', ''ssid'', ''timestamp'', ''channel_bandwidth'',
      ''capabilities'']"

text \<open>
  The body of the first loop, for the key \<open>key\<close> holding \<open>v\<close>: the new value of that key.
  The \<^verbatim>\<open>elif\<close> makes the two cases exclusive: a \<^verbatim>\<open>None\<close> under \<^verbatim>\<open>'bssid'\<close> becomes
  \<^verbatim>\<open>""\<close> and is not looked at again.
\<close>

definition prepare_value :: "string \<Rightarrow> json \<Rightarrow> json" where
  "prepare_value key v =
     (if v = JNull then
        (if key \<in> set numeric_fields then JInt 0
         else if key \<in> set string_fields then JStr ''''
         else v)
      else if v = JStr '''' then
        (if key \<in> set [''bssid''] then JStr ''00:00:00:00:00:00'' else v)
      else v)"

text \<open>
  The first loop visits every key of the copy once and assigns only to the key it visits,
  so it is the map of \<open>prepare_value\<close> over the items, in their order.
\<close>

definition prepare_present :: "pydict \<Rightarrow> pydict" where
  "prepare_present data = map (\<lambda>(key, v). (key, prepare_value key v)) data"

text \<open>The second loop: a field that is not a key is appended with its default.\<close>

definition ensure_field :: "string \<Rightarrow> pydict \<Rightarrow> pydict" where
  "ensure_field field prepared_data =
     (if map_of prepared_data field = None then
        prepared_data @ [(field, if field \<in> set numeric_fields then JInt 0 else JStr '''')]
      else prepared_data)"

definition prepare_wifi_data :: "pydict \<Rightarrow> pydict" where
  "prepare_wifi_data data = fold ensure_field all_fields (prepare_present data)"

section \<open>The example-payload detector: \<^verbatim>\<open>_is_example_payload\<close>\<close>

text \<open>
  \<^verbatim>\<open>str.strip()\<close> removes the leading and the trailing whitespace. Of the characters a
  \<open>string\<close> of HOL holds (code points below 256), Python counts as whitespace the code
  points 9 to 13, 28 to 32, 133 and 160.
\<close>

definition isspace :: "char \<Rightarrow> bool" where
  "isspace c = ((of_char c :: nat) \<in> set [9, 10, 11, 12, 13, 28, 29, 30, 31, 32, 133, 160])"

definition strip :: "string \<Rightarrow> string" where
  "strip s = rev (dropWhile isspace (rev (dropWhile isspace s)))"

text \<open>
  The function is defined twice in the source, inside \<^verbatim>\<open>_process_json_file_content\<close> and
  inside \<^verbatim>\<open>handle_text_or_file\<close>, with the same body: \<^verbatim>\<open>obj.get('bssid', '')\<close> is the
  value under the key or \<^verbatim>\<open>''\<close>, and \<^verbatim>\<open>obj.get('ssid') == 'MyWiFi'\<close> holds only for the
  string itself.
\<close>

fun is_example_payload :: "json \<Rightarrow> bool" where
  "is_example_payload (JDict obj) =
     (case (case map_of obj ''bssid'' of None \<Rightarrow> JStr '''' | Some v \<Rightarrow> v) of
        JStr bssid \<Rightarrow>
          (if strip bssid = ''00:11:22:33:44:55'' then True
           else if map_of obj ''ssid'' = Some (JStr ''MyWiFi'') then True
           else False)
      | other \<Rightarrow>
          (if map_of obj ''ssid'' = Some (JStr ''MyWiFi'') then True else False))"
| "is_example_payload v = False"

section \<open>The storage collaborator\<close>

text \<open>
  \<^verbatim>\<open>controller = Controller()\<close> comes from a module that is not part of the sources. Its
  two operations are parameters: each takes the storage's state \<open>'s\<close>, returns the next
  one, and either returns a value or raises (\<open>Inl\<close>). Exceptions are the instances of
  Python's \<^verbatim>\<open>Exception\<close>, which is what \<^verbatim>\<open>except Exception\<close> catches.
  Every call is appended to a log, so that "no call" can be stated.
\<close>

datatype exn = Exception string

record ('n, 's) controller =
  build_network :: "pydict \<Rightarrow> 's \<Rightarrow> (exn + 'n) \<times> 's"
  save_network :: "'n \<Rightarrow> 's \<Rightarrow> (exn + bool) \<times> 's"

datatype 'n call = BuildNetwork pydict | SaveNetwork 'n

type_synonym ('n, 's) world = "'s \<times> 'n call list"

definition call_build ::
  "('n, 's) controller \<Rightarrow> pydict \<Rightarrow> ('n, 's) world \<Rightarrow> (exn + 'n) \<times> ('n, 's) world"
where
  "call_build c d w =
     (case build_network c d (fst w) of
        (r, s') \<Rightarrow> (r, (s', snd w @ [BuildNetwork d])))"

definition call_save ::
  "('n, 's) controller \<Rightarrow> 'n \<Rightarrow> ('n, 's) world \<Rightarrow> (exn + bool) \<times> ('n, 's) world"
where
  "call_save c n w =
     (case save_network c n (fst w) of
        (r, s') \<Rightarrow> (r, (s', snd w @ [SaveNetwork n])))"

section \<open>The single-record processor: \<^verbatim>\<open>_process_single_wifi_record\<close>\<close>

text \<open>
  \<^verbatim>\<open>is_valid = _validate_wifi_data(prepared_data)\<close> binds the whole pair that the validator
  returns, and \<^verbatim>\<open>if not is_valid:\<close> tests that pair. Python's truth value of a tuple is
  "its length is not zero".
\<close>

definition tuple_len :: "'a \<times> 'b \<Rightarrow> nat" where
  "tuple_len t = 2"

definition truth_of_tuple :: "'a \<times> 'b \<Rightarrow> bool" where
  "truth_of_tuple t = (tuple_len t \<noteq> 0)"

text \<open>
  The dictionary \<^verbatim>\<open>error_messages_sent\<close> is created empty in every call and dropped at
  the end of it; only the branch taken matters. The result is \<open>Inr b\<close> when the function
  returns \<open>b\<close>; both storage calls stand inside \<^verbatim>\<open>try ... except Exception\<close>.
\<close>

definition process_single_wifi_record ::
  "('n, 's) controller \<Rightarrow> pydict \<Rightarrow> ('n, 's) world \<Rightarrow> (exn + bool) \<times> ('n, 's) world"
where
  "process_single_wifi_record c data w =
     (let prepared_data = prepare_wifi_data data;
          is_valid = validate_wifi_data prepared_data
      in if \<not> truth_of_tuple is_valid then (Inr False, w)
         else
           (case call_build c prepared_data w of
              (Inl e, w1) \<Rightarrow> (Inr False, w1)
            | (Inr network, w1) \<Rightarrow>
                (case call_save c network w1 of
                   (Inl e, w2) \<Rightarrow> (Inr False, w2)
                 | (Inr saved, w2) \<Rightarrow> (if saved then (Inr True, w2) else (Inr False, w2)))))"

section \<open>The batch processor: \<^verbatim>\<open>_process_multiple_wifi_records\<close>\<close>

text \<open>
  What the function reports: the message that there is nothing to process, or the final
  message with \<^verbatim>\<open>total_count\<close>, \<^verbatim>\<open>success_count\<close> and \<^verbatim>\<open>error_count\<close>. Sending a
  message (\<^verbatim>\<open>message.answer\<close>) belongs to the transport and is kept as the reported value
  only.
\<close>

datatype batch_outcome = NothingToProcess | Finished nat nat nat

text \<open>
  The loop, with the two counters as accumulator. The callee of the \<^verbatim>\<open>try\<close> block is the
  parameter \<open>proc\<close>, so that the \<^verbatim>\<open>except Exception\<close> of the loop can be exercised with a
  callee that raises; the source calls \<^verbatim>\<open>_process_single_wifi_record\<close> there.
\<close>

fun records_loop ::
  "(pydict \<Rightarrow> 'w \<Rightarrow> (exn + bool) \<times> 'w) \<Rightarrow> json list \<Rightarrow> nat \<times> nat \<Rightarrow> 'w \<Rightarrow> (nat \<times> nat) \<times> 'w"
where
  "records_loop proc [] (success_count, error_count) w = ((success_count, error_count), w)"
| "records_loop proc (JDict d # records) (success_count, error_count) w =
     (case proc d w of
        (Inr ok, w') \<Rightarrow>
          (if ok then records_loop proc records (success_count + 1, error_count) w'
           else records_loop proc records (success_count, error_count + 1) w')
      | (Inl e, w') \<Rightarrow> records_loop proc records (success_count, error_count + 1) w')"
| "records_loop proc (v # records) (success_count, error_count) w =
     records_loop proc records (success_count, error_count + 1) w"

definition process_records_with ::
  "(pydict \<Rightarrow> 'w \<Rightarrow> (exn + bool) \<times> 'w) \<Rightarrow> json list \<Rightarrow> 'w \<Rightarrow> batch_outcome \<times> 'w"
where
  "process_records_with proc records w =
     (if records = [] then (NothingToProcess, w)
      else
        (let total_count = length records in
         case records_loop proc records (0, 0) w of
           ((success_count, error_count), w') \<Rightarrow>
             (Finished total_count success_count error_count, w')))"

definition process_multiple_wifi_records ::
  "('n, 's) controller \<Rightarrow> json list \<Rightarrow> ('n, 's) world \<Rightarrow> batch_outcome \<times> ('n, 's) world"
where
  "process_multiple_wifi_records c records w =
     process_records_with (process_single_wifi_record c) records w"

section \<open>The payload classifier: \<^verbatim>\<open>handle_text_or_file\<close> and \<^verbatim>\<open>_process_json_file_content\<close>\<close>

text \<open>
  What the handler does with a payload: the answer it sends and, behind it, the storage
  calls. \<^verbatim>\<open>json.loads\<close> is a parameter; \<open>Inl\<close> is its \<^verbatim>\<open>JSONDecodeError\<close>.
\<close>

datatype answer =
    InvalidJson string
  | LooksLikeExample
  | Batch batch_outcome
  | Single bool
  | UnsupportedFormat

text \<open>
  \<^verbatim>\<open>any(_is_example_payload(item) for item in parsed_data if isinstance(item, dict))\<close>
\<close>

definition any_example :: "json list \<Rightarrow> bool" where
  "any_example parsed_data = list_ex is_example_payload (filter isinstance_dict parsed_data)"

text \<open>The part of both handlers behind the parse; the two copies differ in their texts only.\<close>

fun dispatch_parsed ::
  "('n, 's) controller \<Rightarrow> json \<Rightarrow> ('n, 's) world \<Rightarrow> answer \<times> ('n, 's) world"
where
  "dispatch_parsed c (JList parsed_data) w =
     (if any_example parsed_data then (LooksLikeExample, w)
      else
        (case process_multiple_wifi_records c parsed_data w of
           (outcome, w') \<Rightarrow> (Batch outcome, w')))"
| "dispatch_parsed c (JDict parsed_data) w =
     (if is_example_payload (JDict parsed_data) then (LooksLikeExample, w)
      else
        (case process_single_wifi_record c parsed_data w of
           (Inr success, w') \<Rightarrow> (Single success, w')
         | (Inl e, w') \<Rightarrow> (Single False, w')))"
| "dispatch_parsed c v w = (UnsupportedFormat, w)"

text \<open>\<^verbatim>\<open>_process_json_file_content(content, message)\<close>\<close>

definition process_json_file_content ::
  "(string \<Rightarrow> string + json) \<Rightarrow> ('n, 's) controller \<Rightarrow> string \<Rightarrow> ('n, 's) world
     \<Rightarrow> answer \<times> ('n, 's) world"
where
  "process_json_file_content json_loads c content w =
     (case json_loads content of
        Inl e \<Rightarrow> (InvalidJson e, w)
      | Inr parsed_data \<Rightarrow> dispatch_parsed c parsed_data w)"

text \<open>
  \<^verbatim>\<open>handle_text_or_file(message)\<close>, the first of the two functions of that name, with
  \<^verbatim>\<open>payload_text = message.text or ""\<close>. Both are registered on the router without a
  filter, this one first; the router hands a message to the first handler whose filters
  pass, so the later one (which has no example gate) is never reached.
\<close>

definition handle_text_or_file ::
  "(string \<Rightarrow> string + json) \<Rightarrow> ('n, 's) controller \<Rightarrow> string option \<Rightarrow> ('n, 's) world
     \<Rightarrow> answer \<times> ('n, 's) world"
where
  "handle_text_or_file json_loads c text w =
     (let payload_text = (case text of None \<Rightarrow> '''' | Some t \<Rightarrow> t) in
      case json_loads payload_text of
        Inl e \<Rightarrow> (InvalidJson e, w)
      | Inr parsed_data \<Rightarrow> dispatch_parsed c parsed_data w)"

section \<open>Instrumentation and concrete inputs\<close>

text \<open>
  A callee wrapped so that every invocation is recorded with its argument and its result;
  the wrapper changes neither the result nor the callee's own state.
\<close>

definition logged ::
  "(pydict \<Rightarrow> 'w \<Rightarrow> (exn + bool) \<times> 'w) \<Rightarrow> pydict \<Rightarrow> 'w \<times> (pydict \<times> (exn + bool)) list
     \<Rightarrow> (exn + bool) \<times> 'w \<times> (pydict \<times> (exn + bool)) list"
where
  "logged proc d wl =
     (case proc d (fst wl) of (r, w') \<Rightarrow> (r, (w', snd wl @ [(d, r)])))"

text \<open>The elements of a batch that are objects, in their order.\<close>

fun dict_items :: "json list \<Rightarrow> pydict list" where
  "dict_items [] = []"
| "dict_items (JDict d # records) = d # dict_items records"
| "dict_items (v # records) = dict_items records"

text \<open>
  A storage that never fails: \<open>build_network\<close> returns the record it is given and
  \<open>save_network\<close> appends it to the table and reports success.
\<close>

definition accepting_controller :: "(pydict, pydict list) controller" where
  "accepting_controller =
     \<lparr>build_network = (\<lambda>d s. (Inr d, s)), save_network = (\<lambda>n s. (Inr True, s @ [n]))\<rparr>"

text \<open>A callee that raises on the record whose \<^verbatim>\<open>ssid\<close> is \<^verbatim>\<open>"boom"\<close>; its state counts the calls.\<close>

fun raising_proc :: "pydict \<Rightarrow> nat \<Rightarrow> (exn + bool) \<times> nat" where
  "raising_proc d n =
     (if map_of d ''ssid'' = Some (JStr ''boom'') then (Inl (Exception ''boom''), n + 1)
      else (Inr True, n + 1))"

text \<open>
  The second record of the instructions (valid), the record of the spec's range example
  (\<^verbatim>\<open>frequency\<close> is 0, so validation fails), and a record with the placeholder
  \<^verbatim>\<open>bssid\<close> behind a space.
\<close>

definition valid_record :: pydict where
  "valid_record =
     [(''bssid'', JStr ''AA:BB:CC:DD:EE:FF''), (''frequency'', JInt 5180), (''rssi'', JInt (-65)),
      (''ssid'', JStr ''OfficeNet''), (''timestamp'', JInt 1698115300)]"

definition invalid_record :: pydict where
  "invalid_record =
     [(''bssid'', JStr ''a''), (''ssid'', JStr ''b''), (''frequency'', JInt 0), (''rssi'', JInt (-1)),
      (''timestamp'', JInt 1)]"

definition example_record :: pydict where
  "example_record = [(''bssid'', JStr '' 00:11:22:33:44:55''), (''ssid'', JStr ''x'')]"

text \<open>A parser that knows one text, standing for the batch of the two records above.\<close>

definition sample_loads :: "string \<Rightarrow> string + json" where
  "sample_loads s =
     (if s = ''[valid, example]'' then Inr (JList [JDict valid_record, JDict example_record])
      else Inl ''Expecting value'')"

section \<open>Normalization\<close>

text \<open>
  Lookup in the normalized record: a key that was present holds its prepared value, an
  absent field of the seven holds its default, and no other key appears.
\<close>

lemma map_of_prepare_present:
  "map_of (prepare_present data) k = map_option (prepare_value k) (map_of data k)"
  unfolding prepare_present_def by (induction data) auto

lemma map_of_ensure_field:
  "map_of (ensure_field f d) k =
     (case map_of d k of
        Some v \<Rightarrow> Some v
      | None \<Rightarrow>
          if k = f then Some (if f \<in> set numeric_fields then JInt 0 else JStr '''') else None)"
  by (auto simp: ensure_field_def map_add_def split: option.splits)

lemma map_of_fold_ensure_field:
  "map_of (fold ensure_field fs d) k =
     (case map_of d k of
        Some v \<Rightarrow> Some v
      | None \<Rightarrow>
          if k \<in> set fs then Some (if k \<in> set numeric_fields then JInt 0 else JStr '''')
          else None)"
proof (induction fs arbitrary: d)
  case Nil
  show ?case by (simp split: option.splits)
next
  case (Cons f fs)
  show ?case
    by (simp add: Cons.IH map_of_ensure_field split: option.splits)
qed

lemma map_of_prepare_wifi_data:
  "map_of (prepare_wifi_data data) k =
     (case map_of data k of
        Some v \<Rightarrow> Some (prepare_value k v)
      | None \<Rightarrow>
          if k \<in> set all_fields then Some (if k \<in> set numeric_fields then JInt 0 else JStr '''')
          else None)"
  by (simp add: prepare_wifi_data_def map_of_fold_ensure_field map_of_prepare_present
      split: option.splits)

lemma prepare_value_twice:
  "k \<noteq> ''bssid'' \<or> v \<noteq> JNull \<Longrightarrow> prepare_value k (prepare_value k v) = prepare_value k v"
  by (auto simp: prepare_value_def numeric_fields_def string_fields_def)

lemma prepare_value_default:
  "k \<noteq> ''bssid'' \<Longrightarrow>
   prepare_value k (if k \<in> set numeric_fields then JInt 0 else JStr '''') =
     (if k \<in> set numeric_fields then JInt 0 else JStr '''')"
  by (auto simp: prepare_value_def numeric_fields_def string_fields_def)

lemma prepare_twice_when_bssid_given:
  assumes "map_of x ''bssid'' = Some v" and "v \<noteq> JNull"
  shows "map_of (prepare_wifi_data (prepare_wifi_data x)) = map_of (prepare_wifi_data x)"
proof
  fix k
  show "map_of (prepare_wifi_data (prepare_wifi_data x)) k = map_of (prepare_wifi_data x) k"
  proof (cases "map_of x k")
    case None
    then have "k \<noteq> ''bssid''" using assms by auto
    then show ?thesis
      using None by (simp add: map_of_prepare_wifi_data prepare_value_default)
  next
    case (Some u)
    then have "k \<noteq> ''bssid'' \<or> u \<noteq> JNull" using assms by auto
    then show ?thesis
      using Some by (simp add: map_of_prepare_wifi_data prepare_value_twice)
  qed
qed

lemma prepare_twice_when_bssid_missing:
  assumes "map_of x ''bssid'' = None \<or> map_of x ''bssid'' = Some JNull"
  shows "map_of (prepare_wifi_data x) ''bssid'' = Some (JStr '''')"
    and "map_of (prepare_wifi_data (prepare_wifi_data x)) ''bssid'' =
           Some (JStr ''00:00:00:00:00:00'')"
  using assms
  by (auto simp: map_of_prepare_wifi_data prepare_value_def all_fields_def numeric_fields_def
      string_fields_def)

text \<open>
  Idempotence as the specification states it, "for any candidate", fails: when \<^verbatim>\<open>bssid\<close>
  is absent (the candidate \<^verbatim>\<open>{}\<close>) or null (the candidate \<^verbatim>\<open>{bssid: null}\<close>), the first
  pass gives \<^verbatim>\<open>bssid\<close> the empty string and a second pass turns that into the sentinel.
\<close>

theorem prepare_wifi_data_not_idempotent:
  "map_of (prepare_wifi_data []) ''bssid'' = Some (JStr '''') \<and>
   map_of (prepare_wifi_data (prepare_wifi_data [])) ''bssid'' =
     Some (JStr ''00:00:00:00:00:00'') \<and>
   map_of (prepare_wifi_data [(''bssid'', JNull)]) ''bssid'' = Some (JStr '''') \<and>
   map_of (prepare_wifi_data (prepare_wifi_data [(''bssid'', JNull)])) ''bssid'' =
     Some (JStr ''00:00:00:00:00:00'')"
  by (simp add: prepare_wifi_data_def prepare_present_def prepare_value_def ensure_field_def
      all_fields_def numeric_fields_def string_fields_def)

text \<open>
  C3 (amended). Normalization is idempotent exactly on the candidates whose \<^verbatim>\<open>bssid\<close> is
  present and not null: for those, normalizing the normalized record gives an equal
  dictionary (the same value under every key), and for every other candidate it does not.
\<close>

theorem prepare_wifi_data_idempotent_iff:
  "map_of (prepare_wifi_data (prepare_wifi_data x)) = map_of (prepare_wifi_data x) \<longleftrightarrow>
     (\<exists>v. map_of x ''bssid'' = Some v \<and> v \<noteq> JNull)"
proof
  assume eq: "map_of (prepare_wifi_data (prepare_wifi_data x)) = map_of (prepare_wifi_data x)"
  show "\<exists>v. map_of x ''bssid'' = Some v \<and> v \<noteq> JNull"
  proof (rule ccontr)
    assume "\<not> (\<exists>v. map_of x ''bssid'' = Some v \<and> v \<noteq> JNull)"
    then have "map_of x ''bssid'' = None \<or> map_of x ''bssid'' = Some JNull"
      by (cases "map_of x ''bssid''") auto
    from prepare_twice_when_bssid_missing [OF this] eq show False by simp
  qed
next
  assume "\<exists>v. map_of x ''bssid'' = Some v \<and> v \<noteq> JNull"
  then show "map_of (prepare_wifi_data (prepare_wifi_data x)) = map_of (prepare_wifi_data x)"
    using prepare_twice_when_bssid_given by blast
qed

text \<open>
  The theorem at the candidate \<^verbatim>\<open>{bssid: "", ssid: null}\<close>, whose \<^verbatim>\<open>bssid\<close> is present
  and not null.
\<close>

theorem prepare_wifi_data_idempotent_witness:
  "map_of [(''bssid'', JStr ''''), (''ssid'', JNull)] ''bssid'' = Some (JStr '''') \<and>
   JStr '''' \<noteq> JNull \<and>
   map_of (prepare_wifi_data (prepare_wifi_data [(''bssid'', JStr ''''), (''ssid'', JNull)])) =
     map_of (prepare_wifi_data [(''bssid'', JStr ''''), (''ssid'', JNull)])"
  using prepare_wifi_data_idempotent_iff [of "[(''bssid'', JStr ''''), (''ssid'', JNull)]"]
  by simp

text \<open>
  C7. Normalizing the candidate
  \<^verbatim>\<open>{bssid: "", ssid: null, frequency: null, rssi: null, timestamp: null}\<close> yields exactly
  \<^verbatim>\<open>{bssid: "00:00:00:00:00:00", ssid: "", frequency: 0, rssi: 0, timestamp: 0,
  channel_bandwidth: "", capabilities: ""}\<close>: every null is replaced by the default of its
  field, the empty \<^verbatim>\<open>bssid\<close> becomes the sentinel, and the two absent optional fields are
  added as empty strings (behind the given keys, which keep their order).
\<close>

theorem prepare_wifi_data_defaults:
  "prepare_wifi_data
     [(''bssid'', JStr ''''), (''ssid'', JNull), (''frequency'', JNull), (''rssi'', JNull),
      (''timestamp'', JNull)] =
   [(''bssid'', JStr ''00:00:00:00:00:00''), (''ssid'', JStr ''''), (''frequency'', JInt 0),
    (''rssi'', JInt 0), (''timestamp'', JInt 0), (''channel_bandwidth'', JStr ''''),
    (''capabilities'', JStr '''')]"
  by (simp add: prepare_wifi_data_def prepare_present_def prepare_value_def ensure_field_def
      all_fields_def numeric_fields_def string_fields_def)

section \<open>Validation\<close>

text \<open>
  C6. The validator rejects wrong-typed and out-of-range numeric fields. Whatever the rest
  of the record is, \<^verbatim>\<open>_validate_wifi_data\<close> returns false when \<^verbatim>\<open>frequency\<close> is not an
  \<^verbatim>\<open>int\<close> or \<^verbatim>\<open>float\<close> or is \<^verbatim>\<open><= 0\<close>, when \<^verbatim>\<open>rssi\<close> is not an \<^verbatim>\<open>int\<close> (a float such as
  \<open>-1.5\<close> is not) or is \<^verbatim>\<open>> 0\<close>, and when \<^verbatim>\<open>timestamp\<close> is not an \<^verbatim>\<open>int\<close> or \<^verbatim>\<open>float\<close> or
  is \<^verbatim>\<open><= 0\<close>. "Number" and "integer" are Python's: a boolean counts as an integer.
\<close>

theorem validate_rejects_bad_numbers:
  assumes "(\<exists>v. map_of data ''frequency'' = Some v \<and> (\<not> isinstance_int_float v \<or> le_zero v)) \<or>
           (\<exists>v. map_of data ''rssi'' = Some v \<and> (\<not> isinstance_int v \<or> gt_zero v)) \<or>
           (\<exists>v. map_of data ''timestamp'' = Some v \<and> (\<not> isinstance_int_float v \<or> le_zero v))"
  shows "fst (validate_wifi_data data) = False"
  using assms unfolding validate_wifi_data_def
  by (auto split: option.splits)

text \<open>
  The theorem at the three records of the specification's range examples, which pass
  every other check: \<^verbatim>\<open>frequency\<close> 0; \<^verbatim>\<open>rssi\<close> 1; \<^verbatim>\<open>rssi\<close> -1.5.
\<close>

theorem validate_rejects_bad_numbers_witness:
  "fst (validate_wifi_data
     [(''bssid'', JStr ''a''), (''ssid'', JStr ''b''), (''frequency'', JInt 0),
      (''rssi'', JInt (-1)), (''timestamp'', JInt 1)]) = False \<and>
   fst (validate_wifi_data
     [(''bssid'', JStr ''a''), (''ssid'', JStr ''b''), (''frequency'', JInt 1),
      (''rssi'', JInt 1), (''timestamp'', JInt 1)]) = False \<and>
   fst (validate_wifi_data
     [(''bssid'', JStr ''a''), (''ssid'', JStr ''b''), (''frequency'', JInt 1),
      (''rssi'', JFloat (Finite (-3) (-1))), (''timestamp'', JInt 1)]) = False"
proof -
  have a: "fst (validate_wifi_data
     [(''bssid'', JStr ''a''), (''ssid'', JStr ''b''), (''frequency'', JInt 0),
      (''rssi'', JInt (-1)), (''timestamp'', JInt 1)]) = False"
    by (rule validate_rejects_bad_numbers) simp
  have b: "fst (validate_wifi_data
     [(''bssid'', JStr ''a''), (''ssid'', JStr ''b''), (''frequency'', JInt 1),
      (''rssi'', JInt 1), (''timestamp'', JInt 1)]) = False"
    by (rule validate_rejects_bad_numbers) simp
  have c: "fst (validate_wifi_data
     [(''bssid'', JStr ''a''), (''ssid'', JStr ''b''), (''frequency'', JInt 1),
      (''rssi'', JFloat (Finite (-3) (-1))), (''timestamp'', JInt 1)]) = False"
    by (rule validate_rejects_bad_numbers) simp
  show ?thesis using a b c by simp
qed

text \<open>
  C10. Booleans pass the numeric checks, since \<^verbatim>\<open>bool\<close> is a subclass of \<^verbatim>\<open>int\<close>. Take
  any record whose \<^verbatim>\<open>bssid\<close> is a non-empty string, whose \<^verbatim>\<open>ssid\<close> is a string and whose
  \<^verbatim>\<open>frequency\<close>, \<^verbatim>\<open>rssi\<close> and \<^verbatim>\<open>timestamp\<close> are booleans, whatever other keys it has. It
  validates, with the empty reason, exactly when the booleans are in range: \<^verbatim>\<open>frequency\<close>
  and \<^verbatim>\<open>timestamp\<close> are \<^verbatim>\<open>true\<close> (the number 1, which is above 0) and \<^verbatim>\<open>rssi\<close> is
  \<^verbatim>\<open>false\<close> (the integer 0, which is not above 0).
\<close>

theorem validate_accepts_booleans:
  assumes "map_of data ''bssid'' = Some (JStr bssid)" and "bssid \<noteq> []"
      and "map_of data ''ssid'' = Some (JStr ssid)"
      and "map_of data ''frequency'' = Some (JBool frequency)"
      and "map_of data ''rssi'' = Some (JBool rssi)"
      and "map_of data ''timestamp'' = Some (JBool timestamp)"
  shows "validate_wifi_data data = (True, NoReason) \<longleftrightarrow> frequency \<and> \<not> rssi \<and> timestamp"
  using assms by (auto simp: validate_wifi_data_def)

text \<open>
  The theorem at the record
  \<^verbatim>\<open>{bssid: "a", ssid: "", frequency: true, rssi: false, timestamp: true}\<close>, which validates.
\<close>

theorem validate_accepts_booleans_witness:
  "map_of
     [(''bssid'', JStr ''a''), (''ssid'', JStr ''''), (''frequency'', JBool True),
      (''rssi'', JBool False), (''timestamp'', JBool True)] ''bssid'' = Some (JStr ''a'') \<and>
   ''a'' \<noteq> [] \<and>
   validate_wifi_data
     [(''bssid'', JStr ''a''), (''ssid'', JStr ''''), (''frequency'', JBool True),
      (''rssi'', JBool False), (''timestamp'', JBool True)] = (True, NoReason)"
  using validate_accepts_booleans
    [of "[(''bssid'', JStr ''a''), (''ssid'', JStr ''''), (''frequency'', JBool True),
          (''rssi'', JBool False), (''timestamp'', JBool True)]"
      "''a''" "''''" True False True]
  by simp

section \<open>Example detection\<close>

text \<open>
  The detector as the specification states it, "true if the record is not an object",
  fails on the code: for a number, a string, a list and null the function returns false
  (its first statement is \<^verbatim>\<open>if not isinstance(obj, dict): return False\<close>).
\<close>

theorem is_example_payload_non_object:
  "is_example_payload (JInt 42) = False \<and> is_example_payload (JStr ''MyWiFi'') = False \<and>
   is_example_payload (JList []) = False \<and> is_example_payload JNull = False"
  by simp

text \<open>
  C4 (amended). The Example-Payload Detector returns false for every input that is not an
  object. For an object it returns true exactly when \<^verbatim>\<open>bssid\<close> is a string that, trimmed
  of whitespace, equals \<^verbatim>\<open>00:11:22:33:44:55\<close>, or \<^verbatim>\<open>ssid\<close> equals \<^verbatim>\<open>MyWiFi\<close>.
\<close>

theorem is_example_payload_cases:
  "(\<not> isinstance_dict v \<longrightarrow> is_example_payload v = False) \<and>
   is_example_payload (JDict obj) =
     ((\<exists>s. map_of obj ''bssid'' = Some (JStr s) \<and> strip s = ''00:11:22:33:44:55'') \<or>
      map_of obj ''ssid'' = Some (JStr ''MyWiFi''))"
proof -
  have "strip '''' \<noteq> ''00:11:22:33:44:55''" by (simp add: strip_def)
  then show ?thesis
    by (cases v) (auto split: option.splits json.splits)
qed

text \<open>
  The theorem at the number 42 and at three objects: the placeholder \<^verbatim>\<open>bssid\<close> between
  spaces, the placeholder \<^verbatim>\<open>ssid\<close>, and the second record of the instructions.
\<close>

theorem is_example_payload_cases_witness:
  "\<not> isinstance_dict (JInt 42) \<and> is_example_payload (JInt 42) = False \<and>
   is_example_payload
     (JDict [(''bssid'', JStr '' 00:11:22:33:44:55 ''), (''ssid'', JStr ''x'')]) \<and>
   is_example_payload (JDict [(''ssid'', JStr ''MyWiFi'')]) \<and>
   \<not> is_example_payload
     (JDict [(''bssid'', JStr ''AA:BB:CC:DD:EE:FF''), (''ssid'', JStr ''OfficeNet'')])"
  using
    is_example_payload_cases
      [of "JInt 42" "[(''bssid'', JStr '' 00:11:22:33:44:55 ''), (''ssid'', JStr ''x'')]"]
    is_example_payload_cases [of "JInt 42" "[(''ssid'', JStr ''MyWiFi'')]"]
    is_example_payload_cases
      [of "JInt 42" "[(''bssid'', JStr ''AA:BB:CC:DD:EE:FF''), (''ssid'', JStr ''OfficeNet'')]"]
  by (simp add: strip_def isspace_def)

section \<open>The example gate of the handlers\<close>

lemma any_example_iff:
  "any_example items = (\<exists>item \<in> set items. isinstance_dict item \<and> is_example_payload item)"
  by (auto simp: any_example_def list_ex_iff)

text \<open>
  C5. When the payload parses to a batch in which at least one object element matches the
  detector, the whole submission is rejected before any processing: both
  \<^verbatim>\<open>handle_text_or_file\<close> and \<^verbatim>\<open>_process_json_file_content\<close> answer with the warning and
  leave the storage and the log of storage calls as they were, so no element reaches
  \<^verbatim>\<open>build_network\<close> or \<^verbatim>\<open>save_network\<close>.
\<close>

theorem example_rejects_whole_batch:
  assumes "json_loads payload = Inr (JList items)"
      and "\<exists>item \<in> set items. isinstance_dict item \<and> is_example_payload item"
  shows "handle_text_or_file json_loads c (Some payload) w = (LooksLikeExample, w) \<and>
         process_json_file_content json_loads c payload w = (LooksLikeExample, w)"
  using assms
  by (simp add: handle_text_or_file_def process_json_file_content_def any_example_iff)

text \<open>
  The theorem at a batch of one valid record and one record with the placeholder
  \<^verbatim>\<open>bssid\<close>, on the storage that never fails and has seen no call.
\<close>

theorem example_rejects_whole_batch_witness:
  "sample_loads ''[valid, example]'' = Inr (JList [JDict valid_record, JDict example_record]) \<and>
   (\<exists>item \<in> set [JDict valid_record, JDict example_record].
      isinstance_dict item \<and> is_example_payload item) \<and>
   handle_text_or_file sample_loads accepting_controller (Some ''[valid, example]'') ([], []) =
     (LooksLikeExample, ([], [])) \<and>
   process_json_file_content sample_loads accepting_controller ''[valid, example]'' ([], []) =
     (LooksLikeExample, ([], []))"
proof -
  have ld: "sample_loads ''[valid, example]'' =
      Inr (JList [JDict valid_record, JDict example_record])"
    by (simp add: sample_loads_def)
  have ex: "\<exists>item \<in> set [JDict valid_record, JDict example_record].
      isinstance_dict item \<and> is_example_payload item"
    by (simp add: example_record_def strip_def isspace_def)
  show ?thesis
    using example_rejects_whole_batch [of sample_loads "''[valid, example]''"
        "[JDict valid_record, JDict example_record]" accepting_controller "([], [])", OF ld ex]
      ld ex
    by simp
qed

section \<open>Single records\<close>

text \<open>
  The truth value of the validator's pair does not depend on its first component, so the
  early return of \<^verbatim>\<open>_process_single_wifi_record\<close> is never taken: for every candidate
  the function returns (it does not raise) and its first storage call is
  \<^verbatim>\<open>build_network\<close> on the normalized record.
\<close>

lemma process_single_always_builds:
  "\<exists>r s rest. process_single_wifi_record c data w =
     (Inr r, (s, snd w @ BuildNetwork (prepare_wifi_data data) # rest))"
  by (auto simp: process_single_wifi_record_def truth_of_tuple_def tuple_len_def call_build_def
      call_save_def Let_def split: prod.splits sum.splits)

lemma process_single_accepting:
  "process_single_wifi_record accepting_controller data (s, log) =
     (Inr True,
      (s @ [prepare_wifi_data data],
       log @ [BuildNetwork (prepare_wifi_data data), SaveNetwork (prepare_wifi_data data)]))"
  by (simp add: process_single_wifi_record_def truth_of_tuple_def tuple_len_def call_build_def
      call_save_def accepting_controller_def Let_def)

text \<open>
  C1 (the code at a failing input). The record
  \<^verbatim>\<open>{bssid: "a", ssid: "b", frequency: 0, rssi: -1, timestamp: 1}\<close> fails validation
  after normalization, and still \<^verbatim>\<open>_process_single_wifi_record\<close> calls \<^verbatim>\<open>build_network\<close>
  and \<^verbatim>\<open>save_network\<close> on it and returns true when the storage accepts it.
\<close>

theorem invalid_record_reaches_storage:
  "fst (validate_wifi_data (prepare_wifi_data invalid_record)) = False \<and>
   process_single_wifi_record accepting_controller invalid_record ([], []) =
     (Inr True,
      ([prepare_wifi_data invalid_record],
       [BuildNetwork (prepare_wifi_data invalid_record),
        SaveNetwork (prepare_wifi_data invalid_record)]))"
  by (simp add: process_single_wifi_record_def truth_of_tuple_def tuple_len_def call_build_def
      call_save_def accepting_controller_def validate_wifi_data_def map_of_prepare_wifi_data
      invalid_record_def prepare_value_def all_fields_def numeric_fields_def Let_def)

section \<open>Batches\<close>

lemma records_loop_sum:
  "records_loop proc records (s0, e0) w = ((s, e), w') \<Longrightarrow> s + e = s0 + e0 + length records"
proof (induction records arbitrary: s0 e0 w)
  case Nil
  then show ?case by simp
next
  case (Cons v records)
  then show ?case
    by (cases v) (auto split: prod.splits sum.splits if_splits dest!: Cons.IH)
qed

text \<open>
  The loop under the instrumented callee: the log grows by one entry for each object
  element, in order, and the counters grow by what the entries and the other elements say.
\<close>

lemma records_loop_logged:
  "records_loop (logged proc) records (s0, e0) (w, log0) = ((s, e), (w', log)) \<Longrightarrow>
   \<exists>l. log = log0 @ l \<and> map fst l = dict_items records \<and>
       s = s0 + length (filter (\<lambda>(d, r). r = Inr True) l) \<and>
       e = e0 + length (filter (\<lambda>v. \<not> isinstance_dict v) records) +
             length (filter (\<lambda>(d, r). r \<noteq> Inr True) l)"
proof (induction records arbitrary: s0 e0 w log0)
  case Nil
  then show ?case by simp
next
  case (Cons v records)
  show ?case
  proof (cases v)
    case (JDict d)
    obtain r w1 where p: "proc d w = (r, w1)" by (metis surj_pair)
    then have step: "logged proc d (w, log0) = (r, (w1, log0 @ [(d, r)]))"
      by (simp add: logged_def)
    show ?thesis
    proof (cases "r = Inr True")
      case True
      with Cons.prems JDict step
      have "records_loop (logged proc) records (s0 + 1, e0) (w1, log0 @ [(d, r)]) =
              ((s, e), (w', log))"
        by simp
      from Cons.IH [OF this] obtain l where
        "log = (log0 @ [(d, r)]) @ l" "map fst l = dict_items records"
        "s = s0 + 1 + length (filter (\<lambda>(d, r). r = Inr True) l)"
        "e = e0 + length (filter (\<lambda>v. \<not> isinstance_dict v) records) +
             length (filter (\<lambda>(d, r). r \<noteq> Inr True) l)" by blast
      then show ?thesis using JDict True
        by (intro exI [of _ "(d, r) # l"]) simp
    next
      case False
      with Cons.prems JDict step
      have "records_loop (logged proc) records (s0, e0 + 1) (w1, log0 @ [(d, r)]) =
              ((s, e), (w', log))"
        by (cases r) auto
      from Cons.IH [OF this] obtain l where
        "log = (log0 @ [(d, r)]) @ l" "map fst l = dict_items records"
        "s = s0 + length (filter (\<lambda>(d, r). r = Inr True) l)"
        "e = e0 + 1 + length (filter (\<lambda>v. \<not> isinstance_dict v) records) +
             length (filter (\<lambda>(d, r). r \<noteq> Inr True) l)" by blast
      then show ?thesis using JDict False
        by (intro exI [of _ "(d, r) # l"]) simp
    qed
  qed (use Cons in \<open>auto dest!: Cons.IH\<close>)
qed

text \<open>The instrumentation is transparent: without it the loop does the same.\<close>

lemma records_loop_logged_same:
  "records_loop (logged proc) records acc (w, log0) = (acc', (w', log)) \<Longrightarrow>
   records_loop proc records acc w = (acc', w')"
proof (induction records arbitrary: acc w log0)
  case Nil
  then show ?case by (cases acc) auto
next
  case (Cons v records)
  obtain s0 e0 where acc: "acc = (s0, e0)" by (cases acc)
  show ?case
  proof (cases v)
    case (JDict d)
    obtain r w1 where p: "proc d w = (r, w1)" by (metis surj_pair)
    then have step: "logged proc d (w, log0) = (r, (w1, log0 @ [(d, r)]))"
      by (simp add: logged_def)
    show ?thesis
      using Cons.prems Cons.IH JDict p step acc
      by (cases r) (auto split: if_splits)
  qed (use Cons acc in auto)
qed

text \<open>
  C2 (the code at a failing input). For the batch \<^verbatim>\<open>[valid, invalid, valid]\<close>, two
  records that pass validation and one that fails it, on a storage whose every build and
  save succeeds, \<^verbatim>\<open>_process_multiple_wifi_records\<close> reports total 3, success 3, error 0:
  the invalid record is saved like the others.
\<close>

theorem batch_valid_invalid_valid:
  "fst (validate_wifi_data (prepare_wifi_data valid_record)) = True \<and>
   fst (validate_wifi_data (prepare_wifi_data invalid_record)) = False \<and>
   fst (process_multiple_wifi_records accepting_controller
     [JDict valid_record, JDict invalid_record, JDict valid_record] ([], [])) = Finished 3 3 0"
  by (simp add: process_multiple_wifi_records_def process_records_with_def
      process_single_accepting validate_wifi_data_def map_of_prepare_wifi_data
      invalid_record_def valid_record_def prepare_value_def all_fields_def numeric_fields_def)

text \<open>
  C8. Batch processing never aborts on a per-element failure. Run a non-empty batch with
  any callee in the place of the Single-Record Processor, recording its invocations. Then
  the batch finishes with its counts; the callee was invoked on every object element, once
  and in order, whatever the earlier invocations did, and on no other element; the error
  count is the number of non-object elements plus the number of invocations that raised or
  returned false, and the success count is the number that returned true. The recording
  changes nothing: the plain run reports the same counts.
\<close>

theorem batch_survives_failures:
  assumes "process_records_with (logged proc) records (w, []) = (outcome, (w', log))"
      and "records \<noteq> []"
  shows "outcome =
           Finished (length records) (length (filter (\<lambda>(d, r). r = Inr True) log))
             (length (filter (\<lambda>v. \<not> isinstance_dict v) records) +
              length (filter (\<lambda>(d, r). r \<noteq> Inr True) log)) \<and>
         map fst log = dict_items records \<and>
         process_records_with proc records w = (outcome, w')"
proof -
  obtain s e where l: "records_loop (logged proc) records (0, 0) (w, []) = ((s, e), (w', log))"
    and o: "outcome = Finished (length records) s e"
    using assms by (auto simp: process_records_with_def split: prod.splits)
  from records_loop_logged [OF l] have
    "map fst log = dict_items records"
    "s = length (filter (\<lambda>(d, r). r = Inr True) log)"
    "e = length (filter (\<lambda>v. \<not> isinstance_dict v) records) +
         length (filter (\<lambda>(d, r). r \<noteq> Inr True) log)"
    by auto
  moreover have "process_records_with proc records w = (outcome, w')"
    using records_loop_logged_same [OF l] o assms(2) by (simp add: process_records_with_def)
  ultimately show ?thesis using o by simp
qed

text \<open>
  The theorem at a batch whose first element makes the callee raise, whose second is the
  number 5 and whose third is accepted: total 3, success 1, error 2, and the callee was
  invoked on the first and on the third element.
\<close>

theorem batch_survives_failures_witness:
  "process_records_with (logged raising_proc)
     [JDict [(''ssid'', JStr ''boom'')], JInt 5, JDict [(''ssid'', JStr ''ok'')]] (0, []) =
     (Finished 3 1 2,
      (2, [([(''ssid'', JStr ''boom'')], Inl (Exception ''boom'')),
           ([(''ssid'', JStr ''ok'')], Inr True)])) \<and>
   [JDict [(''ssid'', JStr ''boom'')], JInt 5, JDict [(''ssid'', JStr ''ok'')]] \<noteq> [] \<and>
   process_records_with raising_proc
     [JDict [(''ssid'', JStr ''boom'')], JInt 5, JDict [(''ssid'', JStr ''ok'')]] 0 =
     (Finished 3 1 2, 2)"
proof -
  have run: "process_records_with (logged raising_proc)
     [JDict [(''ssid'', JStr ''boom'')], JInt 5, JDict [(''ssid'', JStr ''ok'')]] (0, []) =
     (Finished 3 1 2,
      (2, [([(''ssid'', JStr ''boom'')], Inl (Exception ''boom'')),
           ([(''ssid'', JStr ''ok'')], Inr True)]))"
    by (simp add: process_records_with_def logged_def)
  have ne: "[JDict [(''ssid'', JStr ''boom'')], JInt 5, JDict [(''ssid'', JStr ''ok'')]] \<noteq> []"
    by simp
  show ?thesis using batch_survives_failures [OF run ne] run by simp
qed

text \<open>
  C9. Counter conservation: for every non-empty batch and every storage,
  \<^verbatim>\<open>_process_multiple_wifi_records\<close> finishes with \<^verbatim>\<open>total_count\<close> the length of the batch
  and \<^verbatim>\<open>success_count + error_count = total_count\<close>.
\<close>

theorem batch_counts_add_up:
  assumes "records \<noteq> []"
  shows "\<exists>s e w'. process_multiple_wifi_records c records w =
             (Finished (length records) s e, w') \<and>
           s + e = length records"
proof -
  obtain s e w' where
    l: "records_loop (process_single_wifi_record c) records (0, 0) w = ((s, e), w')"
    by (metis surj_pair)
  have "s + e = length records" using records_loop_sum [OF l] by simp
  then show ?thesis using assms l
    by (simp add: process_multiple_wifi_records_def process_records_with_def)
qed

text \<open>The theorem at a batch of one valid record and the number 1.\<close>

theorem batch_counts_add_up_witness:
  "[JDict valid_record, JInt 1] \<noteq> [] \<and>
   (\<exists>s e w'. process_multiple_wifi_records accepting_controller [JDict valid_record, JInt 1]
        ([], []) = (Finished (length [JDict valid_record, JInt 1]) s e, w') \<and>
      s + e = length [JDict valid_record, JInt 1])"
  using batch_counts_add_up [of "[JDict valid_record, JInt 1]" accepting_controller "([], [])"]
  by simp

end
